theory Spec2Isabelle
  imports Main "HOL-Library.Word"
begin

unbundle bit_operations_syntax

section \<open>The worker and its output streams (local\_session.c)\<close>

subsection \<open>Data\<close>

text \<open>
  The structures are declared in \<^verbatim>\<open>imhotep_native.h\<close>; the records below hold the
  fields that \<^verbatim>\<open>local_session.c\<close> reads and writes. A \<^verbatim>\<open>runtime_err\<close> is an error code
  together with a message in a character array of fixed size. The type variable \<open>'b\<close>
  stands for the remaining contents of a buffered socket (descriptor, buffer, bytes
  written so far), which this file never looks at. The \<^verbatim>\<open>int\<close> values of this file are
  compared, stored and printed, never computed with, so they are integers without a
  width.
\<close>

record runtime_err =
  code :: int
  str :: string

record 'b buffered_socket =
  err :: runtime_err
  buf :: 'b

record 'b ftgs_outstream =
  socket :: "'b buffered_socket"

record 'b worker_desc =
  num_streams :: int
  out_streams :: "'b ftgs_outstream list"
  error :: runtime_err

text \<open>
  The C code indexes \<^verbatim>\<open>worker->out_streams\<close> with a signed \<^verbatim>\<open>int\<close> and no bounds check
  of its own. An access outside the array is undefined behaviour in C; the model makes
  it a value, the fault \<open>OutOfBounds i\<close>, so that every function that indexes the array
  returns \<open>fault + result\<close>.
\<close>

datatype fault = OutOfBounds int

definition stream_at :: "'b worker_desc \<Rightarrow> int \<Rightarrow> fault + 'b ftgs_outstream" where
  "stream_at worker i =
     (if 0 \<le> i \<and> i < int (length (out_streams worker))
      then Inr (out_streams worker ! nat i)
      else Inl (OutOfBounds i))"

text \<open>
  \<^verbatim>\<open>&worker->out_streams[i]\<close> without an access: C defines the address of every element
  and the address one past the last element; any other index is the fault. The
  address is kept as the index.
\<close>

definition stream_addr :: "'b worker_desc \<Rightarrow> int \<Rightarrow> fault + int" where
  "stream_addr worker i =
     (if 0 \<le> i \<and> i \<le> int (length (out_streams worker))
      then Inr i
      else Inl (OutOfBounds i))"

definition set_stream :: "'b worker_desc \<Rightarrow> int \<Rightarrow> 'b ftgs_outstream \<Rightarrow> 'b worker_desc" where
  "set_stream worker i s = worker\<lparr>out_streams := (out_streams worker)[nat i := s]\<rparr>"

text \<open>\<^verbatim>\<open>stream.socket.err.code = 0\<close>: only the code is reset, the message stays.\<close>

definition clear_err_code :: "'b ftgs_outstream \<Rightarrow> 'b ftgs_outstream" where
  "clear_err_code s = s\<lparr>socket := (socket s)\<lparr>err := (err (socket s))\<lparr>code := 0\<rparr>\<rparr>\<rparr>"

subsection \<open>Formatting the error message\<close>

text \<open>\<^verbatim>\<open>EBADF\<close> of \<^verbatim>\<open>errno.h\<close>.\<close>

definition EBADF :: int where
  "EBADF = 9"

text \<open>The conversion \<^verbatim>\<open>%d\<close> of \<^verbatim>\<open>snprintf\<close>: a decimal numeral, with a sign when negative.\<close>

definition digit_char :: "nat \<Rightarrow> char" where
  "digit_char d = ''0123456789'' ! d"

fun digits10 :: "nat \<Rightarrow> string" where
  "digits10 n =
     (if n < 10 then [digit_char n] else digits10 (n div 10) @ [digit_char (n mod 10)])"

declare digits10.simps [simp del]

definition show_int :: "int \<Rightarrow> string" where
  "show_int i = (if i < 0 then CHR ''-'' # digits10 (nat (- i)) else digits10 (nat i))"

text \<open>
  \<^verbatim>\<open>snprintf(dst, size, ...)\<close> stores at most \<open>size - 1\<close> characters of the formatted text
  and a terminating NUL; with \<open>size = 0\<close> it stores nothing. The size is
  \<^verbatim>\<open>sizeof(worker->error.str)\<close>, a constant of \<^verbatim>\<open>imhotep_native.h\<close>; it is the parameter
  \<open>errstr_size\<close> of the functions below.
\<close>

definition snprintf_str :: "nat \<Rightarrow> string \<Rightarrow> string \<Rightarrow> string" where
  "snprintf_str n old s = (if n = 0 then old else take (n - 1) s)"

definition invalid_socket_msg :: "int \<Rightarrow> int \<Rightarrow> string" where
  "invalid_socket_msg stream_num n =
     ''Invalid socket number. stream_num: '' @ show_int stream_num @
     '' num_streams: '' @ show_int n"

subsection \<open>The worker-level wrappers\<close>

text \<open>
  \<^verbatim>\<open>write_field_start\<close>, \<^verbatim>\<open>write_field_end\<close> and \<^verbatim>\<open>write_stream_end\<close> are declared in
  \<^verbatim>\<open>remote_output.h\<close>. Each receives a pointer to one stream, so it is a parameter that
  maps the stream to its result and the stream as it leaves it.
\<close>

definition worker_start_field ::
  "nat \<Rightarrow> ('b ftgs_outstream \<Rightarrow> string \<Rightarrow> int \<Rightarrow> int \<Rightarrow> int \<times> 'b ftgs_outstream) \<Rightarrow>
   'b worker_desc \<Rightarrow> string \<Rightarrow> int \<Rightarrow> int \<Rightarrow> int \<Rightarrow> fault + (int \<times> 'b worker_desc)" where
  "worker_start_field errstr_size write_field_start worker field_name len term_type stream_num =
     (if stream_num \<ge> num_streams worker then
        Inr (- 1, worker\<lparr>error :=
               \<lparr>code = EBADF,
                str = snprintf_str errstr_size (str (error worker))
                        (invalid_socket_msg stream_num (num_streams worker))\<rparr>\<rparr>)
      else
        case stream_at worker stream_num of
          Inl f \<Rightarrow> Inl f
        | Inr s \<Rightarrow>
            (case write_field_start s field_name len term_type of
               (e, s') \<Rightarrow>
                 if e \<noteq> 0 then
                   Inr (e, set_stream (worker\<lparr>error := err (socket s')\<rparr>) stream_num
                             (clear_err_code s'))
                 else Inr (0, set_stream worker stream_num s')))"

definition worker_end_field ::
  "nat \<Rightarrow> ('b ftgs_outstream \<Rightarrow> int \<times> 'b ftgs_outstream) \<Rightarrow>
   'b worker_desc \<Rightarrow> int \<Rightarrow> fault + (int \<times> 'b worker_desc)" where
  "worker_end_field errstr_size write_field_end worker stream_num =
     (if stream_num \<ge> num_streams worker then
        Inr (- 1, worker\<lparr>error :=
               \<lparr>code = EBADF,
                str = snprintf_str errstr_size (str (error worker))
                        ''Invalid socket number.''\<rparr>\<rparr>)
      else
        case stream_at worker stream_num of
          Inl f \<Rightarrow> Inl f
        | Inr s \<Rightarrow>
            (case write_field_end s of
               (e, s') \<Rightarrow>
                 if e = - 1 then
                   Inr (- 1, set_stream (worker\<lparr>error := err (socket s')\<rparr>) stream_num
                               (clear_err_code s'))
                 else Inr (0, set_stream worker stream_num s')))"

definition worker_end_stream ::
  "nat \<Rightarrow> ('b ftgs_outstream \<Rightarrow> int \<times> 'b ftgs_outstream) \<Rightarrow>
   'b worker_desc \<Rightarrow> int \<Rightarrow> fault + (int \<times> 'b worker_desc)" where
  "worker_end_stream errstr_size write_stream_end worker stream_num =
     (if stream_num \<ge> num_streams worker then
        Inr (- 1, worker\<lparr>error :=
               \<lparr>code = EBADF,
                str = snprintf_str errstr_size (str (error worker))
                        ''Invalid socket number.''\<rparr>\<rparr>)
      else
        case stream_at worker stream_num of
          Inl f \<Rightarrow> Inl f
        | Inr s \<Rightarrow>
            (case write_stream_end s of
               (e, s') \<Rightarrow>
                 if e = - 1 then
                   Inr (- 1, set_stream (worker\<lparr>error := err (socket s')\<rparr>) stream_num
                               (clear_err_code s'))
                 else Inr (0, set_stream worker stream_num s')))"

section \<open>Sessions (local\_session.c)\<close>

subsection \<open>Tables and the ring buffer\<close>

text \<open>
  The tables and the ring buffer, with the functions that create them, are declared in
  \<^verbatim>\<open>imhotep_native.h\<close> and \<^verbatim>\<open>circ_buf.h\<close> and defined outside \<^verbatim>\<open>local_session.c\<close>.
\<close>

text \<open>
  Modelled from the spec: the Packed Table is missing. It is a read-only columnar
  layout for one shard, a group id and the statistic columns for every document; it
  serves as a layout template, one width per statistic column.
\<close>

record packed_table =
  pt_layout :: "nat list"
  pt_docs :: "(32 word \<times> 64 word list) list"

text \<open>
  Modelled from the spec: the Unpacked Table is missing. It is a row-major buffer with
  a column layout copied from a Packed Table and one row per group.
\<close>

record unpacked_table =
  ut_layout :: "nat list"
  ut_rows :: "64 word list list"

text \<open>
  Modelled from the spec: the Pending-Group Ring Buffer is missing. It is a FIFO of
  group identifiers with a fixed capacity.
\<close>

record circular_buffer_int =
  cb_capacity :: int
  cb_items :: "32 word list"

text \<open>
  Modelled from the spec: the initial contents of a table are missing. All cells are
  zero at creation; a row has one cell per column of the layout.
\<close>

definition zero_rows :: "nat list \<Rightarrow> int \<Rightarrow> 64 word list list" where
  "zero_rows layout n = replicate (nat n) (replicate (length layout) 0)"

text \<open>
  Modelled from the spec: \<^verbatim>\<open>unpacked_table_create\<close> is missing. It allocates an Unpacked
  Table with the given number of rows and the column layout of the sample table,
  every cell zero.
\<close>

definition unpacked_table_create :: "packed_table \<Rightarrow> int \<Rightarrow> unpacked_table" where
  "unpacked_table_create metric_desc n =
     \<lparr>ut_layout = pt_layout metric_desc, ut_rows = zero_rows (pt_layout metric_desc) n\<rparr>"

text \<open>
  Modelled from the spec: \<^verbatim>\<open>unpacked_table_copy_layout\<close> is missing. It derives a table
  with the same column layout and the given row capacity.
\<close>

definition unpacked_table_copy_layout :: "unpacked_table \<Rightarrow> int \<Rightarrow> unpacked_table" where
  "unpacked_table_copy_layout t n =
     \<lparr>ut_layout = ut_layout t, ut_rows = zero_rows (ut_layout t) n\<rparr>"

text \<open>
  Modelled from the spec: \<^verbatim>\<open>circular_buffer_int_alloc\<close> is missing. It allocates the ring
  buffer with the given capacity, holding nothing.
\<close>

definition circular_buffer_int_alloc :: "int \<Rightarrow> circular_buffer_int" where
  "circular_buffer_int_alloc n = \<lparr>cb_capacity = n, cb_items = []\<rparr>"

subsection \<open>The session\<close>

text \<open>
  \<^verbatim>\<open>calloc(n, sizeof(uint32_t))\<close> of the C library, called with an \<^verbatim>\<open>int\<close> count: an
  array of \<open>n\<close> zeros. A negative count converts to a \<^verbatim>\<open>size_t\<close> that no allocation can
  satisfy, and the result is the null pointer, \<open>None\<close>. Exhausted memory is not
  modelled.
\<close>

definition calloc_uint32 :: "int \<Rightarrow> 32 word list option" where
  "calloc_uint32 n = (if n < 0 then None else Some (replicate (nat n) 0))"

definition CIRC_BUFFER_SIZE :: int where
  "CIRC_BUFFER_SIZE = 64"

definition PREFETCH_BUFFER_SIZE :: int where
  "PREFETCH_BUFFER_SIZE = 64"

record session_desc =
  num_groups :: int
  num_stats :: int
  only_binary_metrics :: int
  grp_stats :: unpacked_table
  temp_buf :: unpacked_table
  grp_buf :: circular_buffer_int
  nz_grps_buf :: "32 word list option"

definition allocate_grp_stats ::
  "session_desc \<Rightarrow> packed_table \<Rightarrow> unpacked_table \<times> session_desc" where
  "allocate_grp_stats session metric_desc =
     (let grp_stats = unpacked_table_create metric_desc (num_groups session);
          session = session\<lparr>temp_buf := unpacked_table_copy_layout grp_stats PREFETCH_BUFFER_SIZE\<rparr>
      in (grp_stats, session))"

definition session_init ::
  "session_desc \<Rightarrow> int \<Rightarrow> int \<Rightarrow> int \<Rightarrow> packed_table \<Rightarrow> session_desc" where
  "session_init session n_groups n_stats only_binary sample_table =
     (let session = session\<lparr>num_groups := n_groups\<rparr>;
          session = session\<lparr>num_stats := n_stats\<rparr>;
          session = session\<lparr>only_binary_metrics := only_binary\<rparr>;
          (t, session) = allocate_grp_stats session sample_table;
          session = session\<lparr>grp_stats := t\<rparr>;
          session = session\<lparr>grp_buf := circular_buffer_int_alloc CIRC_BUFFER_SIZE\<rparr>;
          session = session\<lparr>nz_grps_buf := calloc_uint32 n_groups\<rparr>
      in session)"

section \<open>The TGS pass (local\_session.c)\<close>

text \<open>
  Modelled from the spec: the Term is missing. It is a tagged value, a 64-bit integer
  or a byte sequence with its length; the record keeps the tag and both values.
\<close>

record term_s =
  term_kind :: "8 word"
  int_value :: "64 word"
  string_value :: string
  string_len :: int

text \<open>
  Modelled from the spec: the Pass Descriptor is missing. It binds the Term, the target
  stream, the shard addresses, the document counts, the shard handles and the shard
  count. The stream is a pointer to an element of \<^verbatim>\<open>worker->out_streams\<close>, kept here as
  the index of that element. The worker and the session, which the descriptor refers
  to in C, are passed beside it.
\<close>

record tgs_desc =
  tgs_term :: term_s
  term_type :: "8 word"
  stream :: int
  addresses :: "string list"
  docs_per_shard :: "int list"
  shards :: "packed_table list"
  num_shard :: int

text \<open>
  Modelled from the spec: \<^verbatim>\<open>term_init\<close> is missing. It constructs the Term from the
  scalar or from the byte sequence, of which it copies at most the given length.
\<close>

definition term_init :: "8 word \<Rightarrow> 64 word \<Rightarrow> string \<Rightarrow> int \<Rightarrow> term_s" where
  "term_init ty int_term string_term string_term_len =
     \<lparr>term_kind = ty, int_value = int_term,
      string_value = take (nat string_term_len) string_term,
      string_len = string_term_len\<rparr>"

text \<open>
  Modelled from the spec: \<^verbatim>\<open>tgs_init\<close> is missing. It binds its arguments into the Pass
  Descriptor.
\<close>

definition tgs_init ::
  "term_s \<Rightarrow> 8 word \<Rightarrow> string list \<Rightarrow> int list \<Rightarrow> packed_table list \<Rightarrow> int \<Rightarrow> int \<Rightarrow> tgs_desc" where
  "tgs_init t ty addrs docs shs n stream_ix =
     \<lparr>tgs_term = t, term_type = ty, stream = stream_ix, addresses = addrs,
      docs_per_shard = docs, shards = shs, num_shard = n\<rparr>"

text \<open>
  The calls that \<^verbatim>\<open>run_tgs_pass\<close> makes, in program order. The log is how the model
  observes the calls whose effect is outside the worker and the session: the timers and
  the construction and destruction of the Term and of the Pass Descriptor.
\<close>

datatype call =
    Start_timer int
  | Term_init
  | Tgs_init
  | Tgs_execute_pass
  | Tgs_destroy
  | Term_destroy
  | End_timer int

text \<open>
  \<^verbatim>\<open>tgs_execute_pass\<close> is not part of \<^verbatim>\<open>local_session.c\<close>. It receives the worker, the
  session and the descriptor, so it is a parameter that maps them to its result and to
  the worker and the session as it leaves them. Before the pass the function only
  forms the address \<^verbatim>\<open>&worker->out_streams[stream_num]\<close> and binds it into the
  descriptor; it reads the stream through the descriptor only after a pass that
  failed, and that read is a lookup in the stream array.
\<close>

definition run_tgs_pass ::
  "('b worker_desc \<Rightarrow> session_desc \<Rightarrow> tgs_desc \<Rightarrow> int \<times> 'b worker_desc \<times> session_desc) \<Rightarrow>
   'b worker_desc \<Rightarrow> session_desc \<Rightarrow> 8 word \<Rightarrow> 64 word \<Rightarrow> string \<Rightarrow> int \<Rightarrow>
   string list \<Rightarrow> int list \<Rightarrow> packed_table list \<Rightarrow> int \<Rightarrow> int \<Rightarrow>
   fault + (int \<times> 'b worker_desc \<times> session_desc \<times> call list)" where
  "run_tgs_pass tgs_execute_pass worker session ty int_term string_term string_term_len
       addrs docs shs n stream_num =
     (let log = [Start_timer 3];
          t = term_init ty int_term string_term string_term_len;
          log = log @ [Term_init]
      in case stream_addr worker stream_num of
           Inl f \<Rightarrow> Inl f
         | Inr stream_ix \<Rightarrow>
             (let desc = tgs_init t ty addrs docs shs n stream_ix;
                  log = log @ [Tgs_init];
                  (e, worker, session) = tgs_execute_pass worker session desc;
                  log = log @ [Tgs_execute_pass]
              in case (if e \<noteq> 0
                       then (case stream_at worker (stream desc) of
                               Inl f \<Rightarrow> Inl f
                             | Inr s \<Rightarrow>
                                 Inr (if code (err (socket s)) \<noteq> 0
                                      then worker\<lparr>error := err (socket s)\<rparr>
                                      else worker))
                       else Inr worker) of
                   Inl f \<Rightarrow> Inl f
                 | Inr worker \<Rightarrow>
                     (let log = log @ [Tgs_destroy];
                          log = log @ [Term_destroy];
                          log = log @ [End_timer 3]
                      in Inr (e, worker, session, log))))"

section \<open>The key codec (btree/int.hpp)\<close>

text \<open>
  \<^verbatim>\<open>Int<int_t>\<close> is a view: it holds the address \<^verbatim>\<open>_begin\<close> of bytes it does not own.
  Memory maps addresses to bytes. \<^verbatim>\<open>Long\<close> is \<^verbatim>\<open>Int<int64_t>\<close>; its call operator reads
  the eight bytes at \<^verbatim>\<open>_begin\<close> as one \<^verbatim>\<open>int64_t\<close>, in the byte order of the machine, which
  is a parameter.
\<close>

type_synonym byte = "8 word"

datatype byte_order = Little_endian | Big_endian










text \<open>
  The object representation of an \<^verbatim>\<open>int64_t\<close>: the eight bytes of its two's-complement
  bit pattern, least significant first on a little-endian machine and last on a
  big-endian one.
\<close>

fun bytes_of_word :: "nat \<Rightarrow> 64 word \<Rightarrow> byte list" where
  "bytes_of_word 0 w = []"
| "bytes_of_word (Suc n) w = ucast w # bytes_of_word n (drop_bit 8 w)"

definition encode_long :: "byte_order \<Rightarrow> 64 word \<Rightarrow> byte list" where
  "encode_long bo w =
     (case bo of
        Little_endian \<Rightarrow> bytes_of_word 8 w
      | Big_endian \<Rightarrow> rev (bytes_of_word 8 w))"

section \<open>Concrete workers, stream operations and passes\<close>

text \<open>
  Small inputs on which the theorems below are evaluated. The socket contents are the
  text written so far. A stream operation that fails captures \<open>broken_pipe\<close> on its
  stream.
\<close>

definition no_error :: runtime_err where
  "no_error = \<lparr>code = 0, str = []\<rparr>"

definition broken_pipe :: runtime_err where
  "broken_pipe = \<lparr>code = 32, str = ''Broken pipe''\<rparr>"

definition idle_stream :: "string ftgs_outstream" where
  "idle_stream = \<lparr>socket = \<lparr>err = no_error, buf = []\<rparr>\<rparr>"

definition failed_stream :: "string ftgs_outstream" where
  "failed_stream = \<lparr>socket = \<lparr>err = broken_pipe, buf = []\<rparr>\<rparr>"

definition worker2 :: "string worker_desc" where
  "worker2 = \<lparr>num_streams = 2, out_streams = [idle_stream, idle_stream], error = no_error\<rparr>"

definition write_start_ok ::
  "string ftgs_outstream \<Rightarrow> string \<Rightarrow> int \<Rightarrow> int \<Rightarrow> int \<times> string ftgs_outstream" where
  "write_start_ok s name len ty = (0, s\<lparr>socket := (socket s)\<lparr>buf := buf (socket s) @ name\<rparr>\<rparr>)"

definition write_start_fails ::
  "string ftgs_outstream \<Rightarrow> string \<Rightarrow> int \<Rightarrow> int \<Rightarrow> int \<times> string ftgs_outstream" where
  "write_start_fails s name len ty = (- 1, s\<lparr>socket := (socket s)\<lparr>err := broken_pipe\<rparr>\<rparr>)"

definition write_end_ok :: "string ftgs_outstream \<Rightarrow> int \<times> string ftgs_outstream" where
  "write_end_ok s = (0, s)"

definition write_end_fails :: "string ftgs_outstream \<Rightarrow> int \<times> string ftgs_outstream" where
  "write_end_fails s = (- 1, s\<lparr>socket := (socket s)\<lparr>err := broken_pipe\<rparr>\<rparr>)"

definition write_end_returns_1 :: "string ftgs_outstream \<Rightarrow> int \<times> string ftgs_outstream" where
  "write_end_returns_1 s = (1, s\<lparr>socket := (socket s)\<lparr>err := broken_pipe\<rparr>\<rparr>)"

definition sample_table :: packed_table where
  "sample_table = \<lparr>pt_layout = [1, 8, 32], pt_docs = []\<rparr>"

definition blank_session :: session_desc where
  "blank_session =
     \<lparr>num_groups = 0, num_stats = 0, only_binary_metrics = 0,
      grp_stats = \<lparr>ut_layout = [], ut_rows = []\<rparr>,
      temp_buf = \<lparr>ut_layout = [], ut_rows = []\<rparr>,
      grp_buf = \<lparr>cb_capacity = 0, cb_items = []\<rparr>,
      nz_grps_buf = None\<rparr>"

definition pass_ok ::
  "string worker_desc \<Rightarrow> session_desc \<Rightarrow> tgs_desc \<Rightarrow> int \<times> string worker_desc \<times> session_desc" where
  "pass_ok w s d = (0, w, s)"

definition pass_write_fails ::
  "string worker_desc \<Rightarrow> session_desc \<Rightarrow> tgs_desc \<Rightarrow> int \<times> string worker_desc \<times> session_desc" where
  "pass_write_fails w s d = (- 1, set_stream w (stream d) failed_stream, s)"

definition pass_fails_no_stream_error ::
  "string worker_desc \<Rightarrow> session_desc \<Rightarrow> tgs_desc \<Rightarrow> int \<times> string worker_desc \<times> session_desc" where
  "pass_fails_no_stream_error w s d = (- 1, w, s)"


section \<open>Properties of the worker-level wrappers\<close>

lemma show_int_5: "show_int 5 = ''5''"
  by (simp add: show_int_def digits10.simps digit_char_def)

lemma show_int_2: "show_int 2 = ''2''"
  by (simp add: show_int_def digits10.simps digit_char_def)

lemma invalid_socket_msg_5_2:
  "invalid_socket_msg 5 2 = ''Invalid socket number. stream_num: 5 num_streams: 2''"
  by (simp add: invalid_socket_msg_def show_int_5 show_int_2)

lemma snprintf_str_fits: "length s < n \<Longrightarrow> snprintf_str n old s = s"
  by (simp add: snprintf_str_def)

lemma stream_at_set_stream:
  "stream_at w i = Inr s \<Longrightarrow> stream_at (set_stream w i s') i = Inr s'"
  by (auto simp: stream_at_def set_stream_def split: if_splits)

lemma stream_at_set_stream_other:
  "j \<noteq> i \<Longrightarrow> 0 \<le> i \<Longrightarrow> stream_at (set_stream w i s') j = stream_at w j"
  by (auto simp: stream_at_def set_stream_def split: if_splits)

lemma stream_at_error_update [simp]: "stream_at (w\<lparr>error := e\<rparr>) i = stream_at w i"
  by (simp add: stream_at_def)

lemma stream_at_negative: "i < 0 \<Longrightarrow> stream_at w i = Inl (OutOfBounds i)"
  by (simp add: stream_at_def)

lemma code_clear_err_code [simp]: "code (err (socket (clear_err_code s))) = 0"
  by (simp add: clear_err_code_def)

text \<open>
  C2. On a worker with \<open>num_streams = 2\<close>, \<open>worker_start_field\<close> with stream index 5
  returns \<open>-1\<close> and sets the worker's error to \<open>EBADF\<close> with a message that holds the
  index 5 and the count 2, whatever the stream operation is; the streams are left as
  they were. The message buffer must hold the 51 characters of the message and the
  terminating NUL.
\<close>

theorem worker_start_field_index_5_of_2:
  assumes "num_streams worker = 2" and "52 \<le> errstr_size"
  shows "\<exists>w'. worker_start_field errstr_size write_field_start worker field_name len ty 5 = Inr (- 1, w')
           \<and> code (error w') = EBADF
           \<and> str (error w') = ''Invalid socket number. stream_num: 5 num_streams: 2''
           \<and> str (error w') = ''Invalid socket number. stream_num: '' @ show_int 5 @
                                 '' num_streams: '' @ show_int 2
           \<and> out_streams w' = out_streams worker
           \<and> num_streams w' = num_streams worker"
  using assms
  by (simp add: worker_start_field_def snprintf_str_def invalid_socket_msg_5_2 show_int_5 show_int_2)

theorem worker_start_field_index_5_of_2_witness:
  "num_streams worker2 = 2 \<and> (52::nat) \<le> 256 \<and>
   (\<exists>w'. worker_start_field 256 write_start_ok worker2 ''age'' 3 0 5 = Inr (- 1, w')
      \<and> code (error w') = EBADF
      \<and> str (error w') = ''Invalid socket number. stream_num: 5 num_streams: 2''
      \<and> out_streams w' = [idle_stream, idle_stream])"
proof -
  have n: "num_streams worker2 = 2" by (simp add: worker2_def)
  have sz: "(52::nat) \<le> 256" by simp
  from worker_start_field_index_5_of_2 [OF n sz, of write_start_ok "''age''" 3 0]
  show ?thesis using n by (auto simp: worker2_def)
qed

text \<open>
  C3, as stated, fails: for the invalid index 5 on a worker with two streams,
  \<open>worker_end_field\<close> sets the message \<open>Invalid socket number.\<close>, which holds neither
  the index nor the count.
\<close>

theorem worker_end_field_message_counterexample:
  "num_streams worker2 \<le> 5 \<and>
   worker_end_field 256 write_end_fails worker2 5 =
     Inr (- 1, worker2\<lparr>error := \<lparr>code = EBADF, str = ''Invalid socket number.''\<rparr>\<rparr>) \<and>
   CHR ''5'' \<notin> set ''Invalid socket number.'' \<and> CHR ''2'' \<notin> set ''Invalid socket number.''"
  by (simp add: worker_end_field_def worker2_def snprintf_str_def)

text \<open>
  C3, amended. For every stream index with \<open>stream_num \<ge> num_streams\<close>, each of the
  three wrappers returns \<open>-1\<close> and changes nothing of the worker but its error, whose
  code becomes \<open>EBADF\<close>. The message of \<open>worker_start_field\<close> carries the index and the
  stream count; the message of \<open>worker_end_field\<close> and of \<open>worker_end_stream\<close> is the
  fixed text \<open>Invalid socket number.\<close>. The message buffer is assumed to hold the
  message.
\<close>

theorem worker_wrappers_reject_invalid_index:
  assumes "num_streams worker \<le> stream_num"
    and "length (invalid_socket_msg stream_num (num_streams worker)) < errstr_size"
  shows "worker_start_field errstr_size write_field_start worker field_name len ty stream_num =
           Inr (- 1, worker\<lparr>error := \<lparr>code = EBADF,
                  str = ''Invalid socket number. stream_num: '' @ show_int stream_num @
                        '' num_streams: '' @ show_int (num_streams worker)\<rparr>\<rparr>)
       \<and> worker_end_field errstr_size write_field_end worker stream_num =
           Inr (- 1, worker\<lparr>error := \<lparr>code = EBADF, str = ''Invalid socket number.''\<rparr>\<rparr>)
       \<and> worker_end_stream errstr_size write_stream_end worker stream_num =
           Inr (- 1, worker\<lparr>error := \<lparr>code = EBADF, str = ''Invalid socket number.''\<rparr>\<rparr>)"
proof -
  have "length ''Invalid socket number.'' < errstr_size"
    using assms(2) by (simp add: invalid_socket_msg_def)
  then show ?thesis
    using assms
    by (simp add: worker_start_field_def worker_end_field_def worker_end_stream_def
        snprintf_str_fits invalid_socket_msg_def)
qed

theorem worker_wrappers_reject_invalid_index_witness:
  "num_streams worker2 \<le> 5 \<and> length (invalid_socket_msg 5 (num_streams worker2)) < 256 \<and>
   worker_start_field 256 write_start_fails worker2 ''age'' 3 0 5 =
     Inr (- 1, worker2\<lparr>error := \<lparr>code = EBADF,
            str = ''Invalid socket number. stream_num: 5 num_streams: 2''\<rparr>\<rparr>) \<and>
   worker_end_field 256 write_end_fails worker2 5 =
     Inr (- 1, worker2\<lparr>error := \<lparr>code = EBADF, str = ''Invalid socket number.''\<rparr>\<rparr>) \<and>
   worker_end_stream 256 write_end_fails worker2 5 =
     Inr (- 1, worker2\<lparr>error := \<lparr>code = EBADF, str = ''Invalid socket number.''\<rparr>\<rparr>)"
proof -
  have n: "num_streams worker2 = 2" by (simp add: worker2_def)
  have i: "num_streams worker2 \<le> 5" by (simp add: n)
  have sz: "length (invalid_socket_msg 5 (num_streams worker2)) < 256"
    by (simp add: n invalid_socket_msg_5_2)
  from worker_wrappers_reject_invalid_index [OF i sz, of write_start_fails "''age''" 3 0
      write_end_fails write_end_fails]
  show ?thesis using i sz by (simp add: n show_int_5 show_int_2)
qed

lemma error_set_stream [simp]: "error (set_stream w i s) = error w"
  by (simp add: set_stream_def)

lemma num_streams_set_stream [simp]: "num_streams (set_stream w i s) = num_streams w"
  by (simp add: set_stream_def)

lemma out_streams_set_stream:
  "out_streams (set_stream w i s) = (out_streams w)[nat i := s]"
  by (simp add: set_stream_def)

text \<open>
  C4, as stated, fails: a stream-end or field-end write that fails with the non-zero
  result 1, having captured an error on its stream, makes \<open>worker_end_stream\<close> and
  \<open>worker_end_field\<close> return 0; the captured error is not copied into the worker's
  slot, which stays empty, and the stream keeps its error code 32.
\<close>

theorem worker_end_stream_drops_error_counterexample:
  "stream_at worker2 1 = Inr idle_stream \<and>
   write_end_returns_1 idle_stream = (1, failed_stream) \<and>
   err (socket failed_stream) = broken_pipe \<and>
   worker_end_stream 256 write_end_returns_1 worker2 1 =
     Inr (0, set_stream worker2 1 failed_stream) \<and>
   worker_end_field 256 write_end_returns_1 worker2 1 =
     Inr (0, set_stream worker2 1 failed_stream) \<and>
   error (set_stream worker2 1 failed_stream) = no_error \<and>
   code no_error = 0 \<and>
   stream_at (set_stream worker2 1 failed_stream) 1 = Inr failed_stream \<and>
   code (err (socket failed_stream)) = 32"
  by (simp add: worker_end_field_def worker_end_stream_def stream_at_def worker2_def
      write_end_returns_1_def idle_stream_def failed_stream_def set_stream_def no_error_def
      broken_pipe_def)

text \<open>
  C4, amended. When the delegated stream operation returns a result that the wrapper
  tests as a failure (any non-zero result of \<open>write_field_start\<close> in
  \<open>worker_start_field\<close>, the result \<open>-1\<close> of \<open>write_field_end\<close> in \<open>worker_end_field\<close> and
  of \<open>write_stream_end\<close> in \<open>worker_end_stream\<close>), the wrapper returns failure, the
  worker's error slot holds the error that the operation captured on the stream, and
  the stream's own error code is reset to 0; no other stream changes.
\<close>

theorem worker_wrappers_hand_off_stream_error:
  assumes "stream_num < num_streams worker"
    and "stream_at worker stream_num = Inr s"
    and "write_field_start s field_name len ty = (e, s1)" and "e \<noteq> 0"
    and "write_field_end s = (- 1, s2)"
    and "write_stream_end s = (- 1, s3)"
  shows "\<exists>w1 w2 w3.
           worker_start_field errstr_size write_field_start worker field_name len ty stream_num =
             Inr (e, w1)
         \<and> worker_end_field errstr_size write_field_end worker stream_num = Inr (- 1, w2)
         \<and> worker_end_stream errstr_size write_stream_end worker stream_num = Inr (- 1, w3)
         \<and> error w1 = err (socket s1) \<and> error w2 = err (socket s2) \<and> error w3 = err (socket s3)
         \<and> stream_at w1 stream_num = Inr (clear_err_code s1)
         \<and> stream_at w2 stream_num = Inr (clear_err_code s2)
         \<and> stream_at w3 stream_num = Inr (clear_err_code s3)
         \<and> code (err (socket (clear_err_code s1))) = 0
         \<and> code (err (socket (clear_err_code s2))) = 0
         \<and> code (err (socket (clear_err_code s3))) = 0
         \<and> out_streams w1 = (out_streams worker)[nat stream_num := clear_err_code s1]
         \<and> out_streams w2 = (out_streams worker)[nat stream_num := clear_err_code s2]
         \<and> out_streams w3 = (out_streams worker)[nat stream_num := clear_err_code s3]"
  using assms
  by (simp add: worker_start_field_def worker_end_field_def worker_end_stream_def
      stream_at_set_stream out_streams_set_stream)

theorem worker_wrappers_hand_off_stream_error_witness:
  "(0::int) < num_streams worker2 \<and> stream_at worker2 0 = Inr idle_stream \<and>
   write_start_fails idle_stream ''age'' 3 0 = (- 1, failed_stream) \<and> (- 1::int) \<noteq> 0 \<and>
   write_end_fails idle_stream = (- 1, failed_stream) \<and>
   (\<exists>w1 w2 w3.
      worker_start_field 256 write_start_fails worker2 ''age'' 3 0 0 = Inr (- 1, w1)
    \<and> worker_end_field 256 write_end_fails worker2 0 = Inr (- 1, w2)
    \<and> worker_end_stream 256 write_end_fails worker2 0 = Inr (- 1, w3)
    \<and> error w1 = broken_pipe \<and> error w2 = broken_pipe \<and> error w3 = broken_pipe
    \<and> stream_at w1 0 = Inr (clear_err_code failed_stream)
    \<and> stream_at w2 0 = Inr (clear_err_code failed_stream)
    \<and> stream_at w3 0 = Inr (clear_err_code failed_stream)
    \<and> code (err (socket (clear_err_code failed_stream))) = 0)"
proof -
  have a: "(0::int) < num_streams worker2" by (simp add: worker2_def)
  have b: "stream_at worker2 0 = Inr idle_stream" by (simp add: stream_at_def worker2_def)
  have c: "write_start_fails idle_stream ''age'' 3 0 = (- 1, failed_stream)"
    by (simp add: write_start_fails_def idle_stream_def failed_stream_def)
  have d: "(- 1::int) \<noteq> 0" by simp
  have e: "write_end_fails idle_stream = (- 1, failed_stream)"
    by (simp add: write_end_fails_def idle_stream_def failed_stream_def)
  have f: "err (socket failed_stream) = broken_pipe" by (simp add: failed_stream_def)
  from worker_wrappers_hand_off_stream_error
      [where worker = worker2 and stream_num = 0 and s = idle_stream
         and write_field_start = write_start_fails and field_name = "''age''" and len = 3
         and ty = 0 and e = "- 1" and ?s1.0 = failed_stream
         and write_field_end = write_end_fails and ?s2.0 = failed_stream
         and write_stream_end = write_end_fails and ?s3.0 = failed_stream
         and errstr_size = 256, OF a b c d e e]
  show ?thesis using a b c e f by auto
qed

text \<open>
  C5, as stated, fails: a field-end or stream-end write that returns the non-zero
  result 1, with an error captured on the stream, makes \<open>worker_end_field\<close> and
  \<open>worker_end_stream\<close> return 0 and leave the worker's error slot empty.
\<close>

theorem worker_end_field_nonzero_result_counterexample:
  "stream_at worker2 0 = Inr idle_stream \<and>
   fst (write_end_returns_1 idle_stream) = 1 \<and>
   err (socket (snd (write_end_returns_1 idle_stream))) = broken_pipe \<and>
   worker_end_field 256 write_end_returns_1 worker2 0 =
     Inr (0, set_stream worker2 0 failed_stream) \<and>
   worker_end_stream 256 write_end_returns_1 worker2 0 =
     Inr (0, set_stream worker2 0 failed_stream) \<and>
   error (set_stream worker2 0 failed_stream) = no_error \<and>
   code no_error = 0"
  by (simp add: worker_end_field_def worker_end_stream_def stream_at_def worker2_def
      write_end_returns_1_def idle_stream_def failed_stream_def set_stream_def no_error_def)

text \<open>
  C5, amended. For every valid stream index, \<open>worker_end_field\<close> and \<open>worker_end_stream\<close>
  return \<open>-1\<close> when the underlying write returns \<open>-1\<close>, and then the worker's error slot
  holds the error captured on the stream; for every other result of the write, zero
  or not, they return 0 and leave the worker's error slot as it was.
\<close>

theorem worker_end_wrappers_fail_on_minus_1:
  assumes "stream_num < num_streams worker"
    and "stream_at worker stream_num = Inr s"
    and "write_end s = (e, s')"
  shows "\<exists>w1 w2.
           worker_end_field errstr_size write_end worker stream_num =
             Inr (if e = - 1 then - 1 else 0, w1)
         \<and> worker_end_stream errstr_size write_end worker stream_num =
             Inr (if e = - 1 then - 1 else 0, w2)
         \<and> error w1 = (if e = - 1 then err (socket s') else error worker)
         \<and> error w2 = (if e = - 1 then err (socket s') else error worker)"
  using assms
  by (simp add: worker_end_field_def worker_end_stream_def)

theorem worker_end_wrappers_fail_on_minus_1_witness:
  "(1::int) < num_streams worker2 \<and> stream_at worker2 1 = Inr idle_stream \<and>
   write_end_fails idle_stream = (- 1, failed_stream) \<and>
   write_end_ok idle_stream = (0, idle_stream) \<and>
   (\<exists>w1 w2. worker_end_field 256 write_end_fails worker2 1 = Inr (- 1, w1)
      \<and> worker_end_stream 256 write_end_fails worker2 1 = Inr (- 1, w2)
      \<and> error w1 = broken_pipe \<and> error w2 = broken_pipe) \<and>
   (\<exists>w1 w2. worker_end_field 256 write_end_ok worker2 1 = Inr (0, w1)
      \<and> worker_end_stream 256 write_end_ok worker2 1 = Inr (0, w2)
      \<and> error w1 = no_error \<and> error w2 = no_error)"
proof -
  have a: "(1::int) < num_streams worker2" by (simp add: worker2_def)
  have b: "stream_at worker2 1 = Inr idle_stream" by (simp add: stream_at_def worker2_def)
  have c: "write_end_fails idle_stream = (- 1, failed_stream)"
    by (simp add: write_end_fails_def idle_stream_def failed_stream_def)
  have d: "write_end_ok idle_stream = (0, idle_stream)"
    by (simp add: write_end_ok_def)
  have f: "err (socket failed_stream) = broken_pipe" "error worker2 = no_error"
    by (simp_all add: failed_stream_def worker2_def)
  from worker_end_wrappers_fail_on_minus_1
      [where worker = worker2 and stream_num = 1 and s = idle_stream
         and write_end = write_end_fails and e = "- 1" and s' = failed_stream
         and errstr_size = 256, OF a b c]
    worker_end_wrappers_fail_on_minus_1
      [where worker = worker2 and stream_num = 1 and s = idle_stream
         and write_end = write_end_ok and e = 0 and s' = idle_stream
         and errstr_size = 256, OF a b d]
  show ?thesis using a b c d f by simp
qed

text \<open>
  C10. The check of the three wrappers is \<open>stream_num \<ge> num_streams\<close> only. On a
  worker whose stream count is not negative, every negative index passes the check
  and the wrapper goes on to index the array with it: the result is the out-of-bounds
  access, not the invalid-index error.
\<close>

theorem worker_wrappers_negative_index:
  assumes "0 \<le> num_streams worker" and "stream_num < 0"
  shows "\<not> num_streams worker \<le> stream_num
       \<and> worker_start_field errstr_size write_field_start worker field_name len ty stream_num =
           Inl (OutOfBounds stream_num)
       \<and> worker_end_field errstr_size write_field_end worker stream_num =
           Inl (OutOfBounds stream_num)
       \<and> worker_end_stream errstr_size write_stream_end worker stream_num =
           Inl (OutOfBounds stream_num)"
  using assms
  by (simp add: worker_start_field_def worker_end_field_def worker_end_stream_def
      stream_at_negative)

theorem worker_wrappers_negative_index_witness:
  "0 \<le> num_streams worker2 \<and> (- 1::int) < 0
   \<and> worker_start_field 256 write_start_ok worker2 ''age'' 3 0 (- 1) = Inl (OutOfBounds (- 1))
   \<and> worker_end_field 256 write_end_ok worker2 (- 1) = Inl (OutOfBounds (- 1))
   \<and> worker_end_stream 256 write_end_ok worker2 (- 1) = Inl (OutOfBounds (- 1))"
proof -
  have a: "0 \<le> num_streams worker2" by (simp add: worker2_def)
  have b: "(- 1::int) < 0" by simp
  from worker_wrappers_negative_index [OF a b, of 256 write_start_ok "''age''" 3 0
      write_end_ok write_end_ok]
  show ?thesis using a by simp
qed

section \<open>Properties of the TGS pass\<close>

text \<open>
  With a valid stream index, \<open>run_tgs_pass\<close> is determined by what \<open>tgs_execute_pass\<close>
  returns for the descriptor bound to that index.
\<close>

lemma run_tgs_pass_valid:
  assumes "stream_at worker stream_num = Inr s0"
    and "tgs_execute_pass worker session
           (tgs_init (term_init ty int_term string_term string_term_len) ty addrs docs shs n stream_num) =
         (e, w', s')"
  shows "run_tgs_pass tgs_execute_pass worker session ty int_term string_term string_term_len
           addrs docs shs n stream_num =
         (if e \<noteq> 0
          then (case stream_at w' stream_num of
                  Inl f \<Rightarrow> Inl f
                | Inr st \<Rightarrow>
                    Inr (e, if code (err (socket st)) \<noteq> 0 then w'\<lparr>error := err (socket st)\<rparr> else w',
                         s',
                         [Start_timer 3, Term_init, Tgs_init, Tgs_execute_pass, Tgs_destroy,
                          Term_destroy, End_timer 3]))
          else Inr (e, w', s',
                    [Start_timer 3, Term_init, Tgs_init, Tgs_execute_pass, Tgs_destroy,
                     Term_destroy, End_timer 3]))"
proof -
  from assms(1) have "stream_addr worker stream_num = Inr stream_num"
    by (auto simp: stream_at_def stream_addr_def split: if_splits)
  with assms(2) show ?thesis
    by (simp add: run_tgs_pass_def Let_def tgs_init_def split: sum.splits)
qed

text \<open>
  C6. With a valid stream index, whatever \<open>tgs_execute_pass\<close> returns (zero or not),
  \<open>run_tgs_pass\<close> returns, and the calls it has made are the same on both paths: after
  the pass, \<open>tgs_destroy\<close> once and \<open>term_destroy\<close> once, then the end of the timer. The
  pass is assumed to leave the stream array at its length.
\<close>

theorem run_tgs_pass_destroys_term_and_descriptor:
  assumes "stream_at worker stream_num = Inr s0"
    and "tgs_execute_pass worker session
           (tgs_init (term_init ty int_term string_term string_term_len) ty addrs docs shs n stream_num) =
         (e, w', s')"
    and "length (out_streams w') = length (out_streams worker)"
  shows "\<exists>w'' log.
           run_tgs_pass tgs_execute_pass worker session ty int_term string_term string_term_len
             addrs docs shs n stream_num = Inr (e, w'', s', log)
         \<and> log = [Start_timer 3, Term_init, Tgs_init, Tgs_execute_pass, Tgs_destroy,
                  Term_destroy, End_timer 3]
         \<and> count_list log Tgs_destroy = 1 \<and> count_list log Term_destroy = 1
         \<and> count_list log Tgs_init = 1 \<and> count_list log Term_init = 1"
proof -
  from assms(1) have "0 \<le> stream_num \<and> stream_num < int (length (out_streams worker))"
    by (auto simp: stream_at_def split: if_splits)
  with assms(3) obtain st where "stream_at w' stream_num = Inr st"
    by (auto simp: stream_at_def)
  moreover note run_tgs_pass_valid [of worker stream_num s0 tgs_execute_pass session ty int_term
      string_term string_term_len addrs docs shs n e w' s']
  ultimately show ?thesis
    using assms(1,2) by simp
qed

theorem run_tgs_pass_destroys_term_and_descriptor_witness:
  "stream_at worker2 0 = Inr idle_stream \<and>
   run_tgs_pass pass_write_fails worker2 blank_session 0 42 [] 0 [] [] [] 0 0 =
     Inr (- 1, (set_stream worker2 0 failed_stream)\<lparr>error := broken_pipe\<rparr>, blank_session,
          [Start_timer 3, Term_init, Tgs_init, Tgs_execute_pass, Tgs_destroy, Term_destroy,
           End_timer 3]) \<and>
   run_tgs_pass pass_ok worker2 blank_session 0 42 [] 0 [] [] [] 0 0 =
     Inr (0, worker2, blank_session,
          [Start_timer 3, Term_init, Tgs_init, Tgs_execute_pass, Tgs_destroy, Term_destroy,
           End_timer 3])"
proof -
  have a: "stream_at worker2 0 = Inr idle_stream" by (simp add: stream_at_def worker2_def)
  let ?d = "tgs_init (term_init 0 42 [] 0) 0 [] [] [] 0 0"
  have b: "pass_write_fails worker2 blank_session ?d =
             (- 1, set_stream worker2 0 failed_stream, blank_session)"
    by (simp add: pass_write_fails_def tgs_init_def)
  have c: "length (out_streams (set_stream worker2 0 failed_stream)) = length (out_streams worker2)"
    by (simp add: set_stream_def)
  have b': "pass_ok worker2 blank_session ?d = (0, worker2, blank_session)"
    by (simp add: pass_ok_def)
  have c': "length (out_streams worker2) = length (out_streams worker2)" by simp
  have d: "run_tgs_pass pass_write_fails worker2 blank_session 0 42 [] 0 [] [] [] 0 0 =
     Inr (- 1, (set_stream worker2 0 failed_stream)\<lparr>error := broken_pipe\<rparr>, blank_session,
          [Start_timer 3, Term_init, Tgs_init, Tgs_execute_pass, Tgs_destroy, Term_destroy,
           End_timer 3])"
    using run_tgs_pass_destroys_term_and_descriptor
      [where tgs_execute_pass = pass_write_fails and worker = worker2
        and session = blank_session and ty = 0 and int_term = 42 and string_term = "[]"
        and string_term_len = 0 and addrs = "[]" and docs = "[]" and shs = "[]" and n = 0
        and stream_num = 0, OF a b c]
    by (auto simp: run_tgs_pass_def Let_def pass_write_fails_def tgs_init_def stream_at_def
        stream_addr_def set_stream_def worker2_def failed_stream_def broken_pipe_def)
  have d': "run_tgs_pass pass_ok worker2 blank_session 0 42 [] 0 [] [] [] 0 0 =
     Inr (0, worker2, blank_session,
          [Start_timer 3, Term_init, Tgs_init, Tgs_execute_pass, Tgs_destroy, Term_destroy,
           End_timer 3])"
    using run_tgs_pass_destroys_term_and_descriptor
      [where tgs_execute_pass = pass_ok and worker = worker2
        and session = blank_session and ty = 0 and int_term = 42 and string_term = "[]"
        and string_term_len = 0 and addrs = "[]" and docs = "[]" and shs = "[]" and n = 0
        and stream_num = 0, OF a b' c']
    by (auto simp: run_tgs_pass_def Let_def pass_ok_def stream_at_def stream_addr_def
        worker2_def)
  show ?thesis using a d d' by simp
qed

text \<open>
  C1, as stated, fails. A pass that returns \<open>-1\<close> without an error captured on the
  stream leaves the worker's error slot empty (code 0). A pass whose write fails gets
  the captured error copied into the worker's slot, but the stream still holds it
  afterwards (code 32): \<open>run_tgs_pass\<close> does not reset the stream's error code as the
  wrappers do.
\<close>

theorem run_tgs_pass_failure_counterexample:
  "run_tgs_pass pass_fails_no_stream_error worker2 blank_session 0 42 [] 0 [] [] [] 0 0 =
     Inr (- 1, worker2, blank_session,
          [Start_timer 3, Term_init, Tgs_init, Tgs_execute_pass, Tgs_destroy, Term_destroy,
           End_timer 3]) \<and>
   code (error worker2) = 0 \<and>
   run_tgs_pass pass_write_fails worker2 blank_session 0 42 [] 0 [] [] [] 0 0 =
     Inr (- 1, (set_stream worker2 0 failed_stream)\<lparr>error := broken_pipe\<rparr>, blank_session,
          [Start_timer 3, Term_init, Tgs_init, Tgs_execute_pass, Tgs_destroy, Term_destroy,
           End_timer 3]) \<and>
   stream_at ((set_stream worker2 0 failed_stream)\<lparr>error := broken_pipe\<rparr>) 0 = Inr failed_stream \<and>
   code (err (socket failed_stream)) = 32"
  by (simp add: run_tgs_pass_def Let_def pass_write_fails_def pass_fails_no_stream_error_def
      tgs_init_def stream_at_def stream_addr_def set_stream_def worker2_def failed_stream_def
      broken_pipe_def idle_stream_def no_error_def)

text \<open>
  C1, amended. If \<open>tgs_execute_pass\<close> returns a non-zero result, \<open>run_tgs_pass\<close> returns
  that result; the error captured on the target stream is copied into the worker's
  error slot when its code is non-zero, and otherwise the worker's slot is left as the
  pass left it.
\<close>

theorem run_tgs_pass_failure_copies_captured_error:
  assumes "stream_at worker stream_num = Inr s0"
    and "tgs_execute_pass worker session
           (tgs_init (term_init ty int_term string_term string_term_len) ty addrs docs shs n stream_num) =
         (e, w', s')"
    and "e \<noteq> 0"
    and "stream_at w' stream_num = Inr st"
  shows "\<exists>w'' log.
           run_tgs_pass tgs_execute_pass worker session ty int_term string_term string_term_len
             addrs docs shs n stream_num = Inr (e, w'', s', log)
         \<and> error w'' = (if code (err (socket st)) \<noteq> 0 then err (socket st) else error w')"
  using run_tgs_pass_valid [of worker stream_num s0 tgs_execute_pass session ty int_term
      string_term string_term_len addrs docs shs n e w' s'] assms
  by simp

theorem run_tgs_pass_failure_copies_captured_error_witness:
  "stream_at worker2 0 = Inr idle_stream \<and> (- 1::int) \<noteq> 0 \<and>
   stream_at (set_stream worker2 0 failed_stream) 0 = Inr failed_stream \<and>
   code (err (socket failed_stream)) = 32 \<and>
   (\<exists>w'' log. run_tgs_pass pass_write_fails worker2 blank_session 0 42 [] 0 [] [] [] 0 0 =
        Inr (- 1, w'', blank_session, log) \<and> error w'' = broken_pipe)"
proof -
  have a: "stream_at worker2 0 = Inr idle_stream" by (simp add: stream_at_def worker2_def)
  let ?d = "tgs_init (term_init 0 42 [] 0) 0 [] [] [] 0 0"
  have b: "pass_write_fails worker2 blank_session ?d =
             (- 1, set_stream worker2 0 failed_stream, blank_session)"
    by (simp add: pass_write_fails_def tgs_init_def)
  have c: "(- 1::int) \<noteq> 0" by simp
  have d: "stream_at (set_stream worker2 0 failed_stream) 0 = Inr failed_stream"
    by (simp add: stream_at_def set_stream_def worker2_def)
  have e: "code (err (socket failed_stream)) = 32" "err (socket failed_stream) = broken_pipe"
    by (simp_all add: failed_stream_def broken_pipe_def)
  from run_tgs_pass_failure_copies_captured_error
      [where tgs_execute_pass = pass_write_fails and worker = worker2
        and session = blank_session and ty = 0 and int_term = 42 and string_term = "[]"
        and string_term_len = 0 and addrs = "[]" and docs = "[]" and shs = "[]" and n = 0
        and stream_num = 0, OF a b c d]
  show ?thesis using a d e by simp
qed

text \<open>
  C9. \<open>run_tgs_pass\<close> does not compare \<open>stream_num\<close> with \<open>num_streams\<close>; it forms the
  address of \<open>out_streams[stream_num]\<close>, binds it into the descriptor and runs the pass.
  So for an index that is not an element of the stream array the outcome is never the
  invalid-index error. At the index one past the last element, where the address is
  defined, the pass is run on the descriptor bound to that index: when the pass
  returns 0 the function returns 0 with the worker as the pass left it, after all its
  calls, and when the pass fails the function reads the stream outside the array. At
  every other index outside the array, forming the address is already the
  out-of-bounds fault. The wrappers, for the same index when it is \<open>\<ge> num_streams\<close>,
  return \<open>-1\<close> with the error code \<open>EBADF\<close>. The pass is assumed to leave the stream
  array at its length.
\<close>

theorem run_tgs_pass_index_not_validated:
  assumes "stream_num < 0 \<or> int (length (out_streams worker)) \<le> stream_num"
    and "tgs_execute_pass worker session
           (tgs_init (term_init ty int_term string_term string_term_len) ty addrs docs shs n stream_num) =
         (e, w', s')"
    and "length (out_streams w') = length (out_streams worker)"
  shows "run_tgs_pass tgs_execute_pass worker session ty int_term string_term string_term_len
           addrs docs shs n stream_num =
           (if stream_num = int (length (out_streams worker)) \<and> e = 0
            then Inr (0, w', s',
                      [Start_timer 3, Term_init, Tgs_init, Tgs_execute_pass, Tgs_destroy,
                       Term_destroy, End_timer 3])
            else Inl (OutOfBounds stream_num))
       \<and> (num_streams worker \<le> stream_num \<longrightarrow>
            (\<exists>w1 w2 w3.
               worker_start_field errstr_size write_field_start worker field_name len fty
                 stream_num = Inr (- 1, w1)
             \<and> worker_end_field errstr_size write_field_end worker stream_num = Inr (- 1, w2)
             \<and> worker_end_stream errstr_size write_stream_end worker stream_num = Inr (- 1, w3)
             \<and> code (error w1) = EBADF \<and> code (error w2) = EBADF \<and> code (error w3) = EBADF))"
proof -
  have run: "run_tgs_pass tgs_execute_pass worker session ty int_term string_term string_term_len
           addrs docs shs n stream_num =
           (if stream_num = int (length (out_streams worker)) \<and> e = 0
            then Inr (0, w', s',
                      [Start_timer 3, Term_init, Tgs_init, Tgs_execute_pass, Tgs_destroy,
                       Term_destroy, End_timer 3])
            else Inl (OutOfBounds stream_num))"
  proof (cases "stream_num = int (length (out_streams worker))")
    case True
    then have addr: "stream_addr worker stream_num = Inr stream_num"
      by (simp add: stream_addr_def)
    from True assms(3) have "stream_at w' stream_num = Inl (OutOfBounds stream_num)"
      by (simp add: stream_at_def)
    with addr assms(2) True show ?thesis
      by (simp add: run_tgs_pass_def Let_def tgs_init_def)
  next
    case False
    with assms(1) have "stream_addr worker stream_num = Inl (OutOfBounds stream_num)"
      by (auto simp: stream_addr_def)
    with False show ?thesis
      by (simp add: run_tgs_pass_def Let_def)
  qed
  show ?thesis
    by (simp add: run worker_start_field_def worker_end_field_def worker_end_stream_def)
qed

theorem run_tgs_pass_index_not_validated_witness:
  "((2::int) < 0 \<or> int (length (out_streams worker2)) \<le> 2) \<and>
   num_streams worker2 \<le> 2 \<and>
   run_tgs_pass pass_ok worker2 blank_session 0 42 [] 0 [] [] [] 0 2 =
     Inr (0, worker2, blank_session,
          [Start_timer 3, Term_init, Tgs_init, Tgs_execute_pass, Tgs_destroy, Term_destroy,
           End_timer 3]) \<and>
   run_tgs_pass pass_fails_no_stream_error worker2 blank_session 0 42 [] 0 [] [] [] 0 2 =
     Inl (OutOfBounds 2) \<and>
   run_tgs_pass pass_ok worker2 blank_session 0 42 [] 0 [] [] [] 0 5 = Inl (OutOfBounds 5) \<and>
   run_tgs_pass pass_ok worker2 blank_session 0 42 [] 0 [] [] [] 0 (- 1) = Inl (OutOfBounds (- 1)) \<and>
   (\<exists>w1 w2 w3.
      worker_start_field 256 write_start_ok worker2 ''age'' 3 0 2 = Inr (- 1, w1)
    \<and> worker_end_field 256 write_end_ok worker2 2 = Inr (- 1, w2)
    \<and> worker_end_stream 256 write_end_ok worker2 2 = Inr (- 1, w3)
    \<and> code (error w1) = EBADF \<and> code (error w2) = EBADF \<and> code (error w3) = EBADF)"
proof -
  have a: "(2::int) < 0 \<or> int (length (out_streams worker2)) \<le> 2" by (simp add: worker2_def)
  have a5: "(5::int) < 0 \<or> int (length (out_streams worker2)) \<le> 5" by (simp add: worker2_def)
  have am: "(- 1::int) < 0 \<or> int (length (out_streams worker2)) \<le> - 1" by simp
  have c: "num_streams worker2 \<le> 2" by (simp add: worker2_def)
  have l: "int (length (out_streams worker2)) = 2" by (simp add: worker2_def)
  have ok: "pass_ok worker2 blank_session
              (tgs_init (term_init 0 42 [] 0) 0 [] [] [] 0 i) = (0, worker2, blank_session)" for i
    by (simp add: pass_ok_def)
  have ko: "pass_fails_no_stream_error worker2 blank_session
              (tgs_init (term_init 0 42 [] 0) 0 [] [] [] 0 i) = (- 1, worker2, blank_session)" for i
    by (simp add: pass_fails_no_stream_error_def)
  have len: "length (out_streams worker2) = length (out_streams worker2)" by simp
  note inst = run_tgs_pass_index_not_validated
      [where worker = worker2 and session = blank_session and ty = 0 and int_term = 42
         and string_term = "[]" and string_term_len = 0 and addrs = "[]" and docs = "[]"
         and shs = "[]" and n = 0 and w' = worker2 and s' = blank_session
         and errstr_size = 256 and write_field_start = write_start_ok
         and field_name = "''age''" and len = 3 and fty = 0
         and write_field_end = write_end_ok and write_stream_end = write_end_ok]
  from inst [where tgs_execute_pass = pass_ok and stream_num = 2 and e = 0, OF a ok len]
    inst [where tgs_execute_pass = pass_fails_no_stream_error and stream_num = 2 and e = "- 1",
      OF a ko len]
    inst [where tgs_execute_pass = pass_ok and stream_num = 5 and e = 0, OF a5 ok len]
    inst [where tgs_execute_pass = pass_ok and stream_num = "- 1" and e = 0, OF am ok len]
  show ?thesis using a c by (simp add: l)
qed

section \<open>Properties of the session\<close>

text \<open>
  C8. For every group count \<open>G \<ge> 0\<close> and every \<open>S\<close>, \<open>session_init\<close> stores \<open>G\<close>, \<open>S\<close> and
  the flag, builds the Unpacked Table with the layout of the sample table and exactly
  \<open>G\<close> rows of zeros, builds the Scratch Buffer with the same layout and 64 rows,
  allocates the ring buffer with capacity 64, empty, and the Dirty-Group Set as \<open>G\<close>
  zeros.
\<close>

theorem session_init_buffers:
  assumes "0 \<le> G"
  shows "num_groups (session_init session G S flag sample) = G
       \<and> num_stats (session_init session G S flag sample) = S
       \<and> only_binary_metrics (session_init session G S flag sample) = flag
       \<and> ut_layout (grp_stats (session_init session G S flag sample)) = pt_layout sample
       \<and> int (length (ut_rows (grp_stats (session_init session G S flag sample)))) = G
       \<and> ut_rows (grp_stats (session_init session G S flag sample)) =
           replicate (nat G) (replicate (length (pt_layout sample)) 0)
       \<and> ut_layout (temp_buf (session_init session G S flag sample)) = pt_layout sample
       \<and> length (ut_rows (temp_buf (session_init session G S flag sample))) = 64
       \<and> cb_capacity (grp_buf (session_init session G S flag sample)) = 64
       \<and> cb_items (grp_buf (session_init session G S flag sample)) = []
       \<and> nz_grps_buf (session_init session G S flag sample) = Some (replicate (nat G) 0)
       \<and> grp_stats (session_init session G S flag sample) = unpacked_table_create sample G
       \<and> temp_buf (session_init session G S flag sample) =
           unpacked_table_copy_layout (unpacked_table_create sample G) PREFETCH_BUFFER_SIZE
       \<and> grp_buf (session_init session G S flag sample) =
           circular_buffer_int_alloc CIRC_BUFFER_SIZE
       \<and> nz_grps_buf (session_init session G S flag sample) = calloc_uint32 G"
  using assms
  by (simp add: session_init_def allocate_grp_stats_def Let_def unpacked_table_create_def
      unpacked_table_copy_layout_def zero_rows_def circular_buffer_int_alloc_def
      calloc_uint32_def CIRC_BUFFER_SIZE_def PREFETCH_BUFFER_SIZE_def)

theorem session_init_buffers_witness:
  "(0::int) \<le> 3
   \<and> num_groups (session_init blank_session 3 2 1 sample_table) = 3
   \<and> ut_rows (grp_stats (session_init blank_session 3 2 1 sample_table)) =
       [[0, 0, 0], [0, 0, 0], [0, 0, 0]]
   \<and> length (ut_rows (temp_buf (session_init blank_session 3 2 1 sample_table))) = 64
   \<and> nz_grps_buf (session_init blank_session 3 2 1 sample_table) = Some [0, 0, 0]"
proof -
  have a: "(0::int) \<le> 3" by simp
  have r: "replicate 3 x = [x, x, x]" for x :: 'a
    by (simp add: numeral_3_eq_3)
  have l: "pt_layout sample_table = [1, 8, 32]"
    by (simp add: sample_table_def)
  from session_init_buffers [OF a, of blank_session 2 1 sample_table]
  show ?thesis
    by (simp add: r l unpacked_table_create_def unpacked_table_copy_layout_def zero_rows_def
        PREFETCH_BUFFER_SIZE_def calloc_uint32_def)
qed

section \<open>Properties of the key codec\<close>

lemma length_bytes_of_word [simp]: "length (bytes_of_word n w) = n"
  by (induction n arbitrary: w) simp_all



lemma length_encode_long [simp]: "length (encode_long bo w) = 8"
  by (cases bo) (simp_all add: encode_long_def)








end
